theory Spec2Isabelle
  imports Main
begin

section \<open>rss2telegram: new-item detection, delivery and watermark persistence\<close>

text \<open>
  A shallow embedding of \<^verbatim>\<open>rss2telegram.go\<close>. The function \<^verbatim>\<open>RSS2Telegram\<close> fetches one
  feed, reads the time up to which the feed was already published to the chat, sends
  every newer item to Telegram and stores the new published time in Firestore.
\<close>

subsection \<open>Time\<close>

text \<open>
  A \<^verbatim>\<open>time.Time\<close> is an instant. It is modelled as the number of nanoseconds since the
  zero value \<^verbatim>\<open>time.Time{}\<close> (January 1, year 1, 00:00:00 UTC); instants before it are
  negative. The feed timestamps and the stored time carry no monotonic clock reading, so
  \<^verbatim>\<open>After\<close> compares the instants.
\<close>

type_synonym time = int

definition IsZero :: "time \<Rightarrow> bool" where
  "IsZero t = (t = 0)"

definition After :: "time \<Rightarrow> time \<Rightarrow> bool" where
  "After t u = (u < t)"

subsection \<open>Errors\<close>

text \<open>
  The gRPC status codes the program tells apart: \<^verbatim>\<open>codes.NotFound\<close> against the rest.
  \<open>Unavailable\<close> stands for the code of any transport or backend failure, \<open>Unknown\<close> is
  what \<^verbatim>\<open>status.Code\<close> gives for an error that is not a gRPC status.
\<close>

datatype code = OK | NotFound | Unavailable | Unknown

text \<open>
  \<open>ErrorString\<close> is an error made by \<^verbatim>\<open>errors.New\<close> or by a library, \<open>StatusError\<close> a
  gRPC status, \<open>BadStatus\<close> the error of line 187 with the status code and the response
  body it formats.
\<close>

datatype error = ErrorString string | StatusError code string | BadStatus int string

fun status_Code :: "error option \<Rightarrow> code" where
  "status_Code None = OK"
| "status_Code (Some (StatusError c msg)) = c"
| "status_Code (Some e) = Unknown"

subsection \<open>Feed items\<close>

text \<open>The fields of \<^verbatim>\<open>gofeed.Item\<close> and \<^verbatim>\<open>gofeed.Feed\<close> the program reads.\<close>

record Item =
  Title :: string
  Content :: string
  PublishedParsed :: "time option"

record Feed =
  Items :: "Item list"

subsection \<open>The Firestore client\<close>

text \<open>
  Modelled from the spec: the Firestore client (\<^verbatim>\<open>cloud.google.com/go/firestore\<close>) is an
  external library, of which the source holds only the calls. Following section 6 of the
  specification, the collection \<^verbatim>\<open>chats\<close> maps a chat identifier to a document, a
  document maps field names to values, and the field \<^verbatim>\<open>publishedAt\<close> is a nested map from
  feed URLs to timestamps. A Firestore timestamp lies between 0001-01-01T00:00:00Z, which
  is the zero \<^verbatim>\<open>time.Time\<close>, and the end of the year 9999, so a stored timestamp is a
  natural number of nanoseconds and the client refuses to send a time outside this range.
  Every call can fail in transport; the argument \<open>fault\<close> of a call is \<open>Some msg\<close> when it
  does, and the call then has no effect.
\<close>

datatype fs_value = TimestampV nat | StringV string | MapV "string \<Rightarrow> fs_value option"

type_synonym document = "string \<Rightarrow> fs_value option"

type_synonym collection = "string \<Rightarrow> document option"

definition maxTimestamp :: time where
  "maxTimestamp = 315537897600 * 1000000000"

definition toTimestamp :: "time \<Rightarrow> error + nat" where
  "toTimestamp t =
     (if t < 0 then Inl (ErrorString ''timestamp: before 0001-01-01'')
      else if maxTimestamp \<le> t then Inl (ErrorString ''timestamp: after 10000-01-01'')
      else Inr (nat t))"

text \<open>\<^verbatim>\<open>DocumentRef.Get\<close>: the snapshot of the document, or a \<^verbatim>\<open>NotFound\<close> status.\<close>

definition doc_Get :: "string option \<Rightarrow> collection \<Rightarrow> string \<Rightarrow> error + document" where
  "doc_Get fault col chatID =
     (case fault of
        Some msg \<Rightarrow> Inl (StatusError Unavailable msg)
      | None \<Rightarrow>
          (case col chatID of
             None \<Rightarrow> Inl (StatusError NotFound ''document not found'')
           | Some d \<Rightarrow> Inr d))"

text \<open>
  \<^verbatim>\<open>DocumentSnapshot.DataAtPath\<close>: walks the nested maps along the path; an error when a
  field is missing or a value on the way is not a map.
\<close>

fun DataAtPath :: "document \<Rightarrow> string list \<Rightarrow> error + fs_value" where
  "DataAtPath d [] = Inl (ErrorString ''empty field path'')"
| "DataAtPath d [k] =
     (case d k of None \<Rightarrow> Inl (ErrorString ''no field'') | Some v \<Rightarrow> Inr v)"
| "DataAtPath d (k # ks) =
     (case d k of
        None \<Rightarrow> Inl (ErrorString ''no field'')
      | Some (MapV m) \<Rightarrow> DataAtPath m ks
      | Some v \<Rightarrow> Inl (ErrorString ''value is not a map''))"

text \<open>
  The effect of an update of one field path on a document: the value at the path is
  replaced, the maps on the way are created where they are missing, and every other field
  stays.
\<close>

fun setAtPath :: "string list \<Rightarrow> fs_value \<Rightarrow> document \<Rightarrow> document" where
  "setAtPath [] v d = d"
| "setAtPath [k] v d = d(k \<mapsto> v)"
| "setAtPath (k # ks) v d =
     d(k \<mapsto> MapV (setAtPath ks v (case d k of Some (MapV m) \<Rightarrow> m | _ \<Rightarrow> Map.empty)))"

text \<open>
  \<^verbatim>\<open>DocumentRef.Update\<close> with one \<^verbatim>\<open>firestore.Update\<close> whose value is a time: fails with
  \<^verbatim>\<open>NotFound\<close> when the document does not exist.
\<close>

definition doc_Update ::
  "string option \<Rightarrow> collection \<Rightarrow> string \<Rightarrow> string list \<Rightarrow> time \<Rightarrow> error option \<times> collection" where
  "doc_Update fault col chatID path t =
     (case toTimestamp t of
        Inl err \<Rightarrow> (Some err, col)
      | Inr ts \<Rightarrow>
          (case fault of
             Some msg \<Rightarrow> (Some (StatusError Unavailable msg), col)
           | None \<Rightarrow>
               (case col chatID of
                  None \<Rightarrow> (Some (StatusError NotFound ''document not found''), col)
                | Some d \<Rightarrow> (None, col(chatID \<mapsto> setAtPath path (TimestampV ts) d)))))"

text \<open>
  \<^verbatim>\<open>DocumentRef.Set\<close> with the data \<^verbatim>\<open>{field: {key: t}}\<close>: creates the document or
  replaces it as a whole.
\<close>

definition doc_Set ::
  "string option \<Rightarrow> collection \<Rightarrow> string \<Rightarrow> string \<Rightarrow> string \<Rightarrow> time \<Rightarrow> error option \<times> collection" where
  "doc_Set fault col chatID field key t =
     (case toTimestamp t of
        Inl err \<Rightarrow> (Some err, col)
      | Inr ts \<Rightarrow>
          (case fault of
             Some msg \<Rightarrow> (Some (StatusError Unavailable msg), col)
           | None \<Rightarrow>
               (None, col(chatID \<mapsto> Map.empty(field \<mapsto> MapV (Map.empty(key \<mapsto> TimestampV ts)))))))"

subsection \<open>Reading and writing the published time\<close>

text \<open>\<^verbatim>\<open>readPublishedAt\<close>, lines 110 to 133.\<close>

definition readPublishedAt ::
  "string option \<Rightarrow> collection \<Rightarrow> string \<Rightarrow> string \<Rightarrow> error + time" where
  "readPublishedAt fault col chatID rssURL =
     (case doc_Get fault col chatID of
        Inl err \<Rightarrow>
          if status_Code (Some err) = NotFound then Inr 0 else Inl err
      | Inr dsnap \<Rightarrow>
          (case DataAtPath dsnap [''publishedAt'', rssURL] of
             Inl err \<Rightarrow> Inr 0
           | Inr data \<Rightarrow>
               (case data of
                  TimestampV n \<Rightarrow> Inr (int n)
                | _ \<Rightarrow> Inr 0)))"

text \<open>
  \<^verbatim>\<open>writePublishedAt\<close>, lines 136 to 159. The first fault is that of the update, the
  second that of the creation of the document.
\<close>

definition writePublishedAt ::
  "string option \<Rightarrow> string option \<Rightarrow> collection \<Rightarrow> string \<Rightarrow> string \<Rightarrow> time
     \<Rightarrow> error option \<times> collection" where
  "writePublishedAt ufault sfault col chatID rssURL t =
     (case doc_Update ufault col chatID [''publishedAt'', rssURL] t of
        (None, col') \<Rightarrow> (None, col')
      | (Some err, col') \<Rightarrow>
          if status_Code (Some err) = NotFound
          then doc_Set sfault col' chatID ''publishedAt'' rssURL t
          else (Some err, col'))"

subsection \<open>The environment and the state\<close>

text \<open>An HTTP form request and the response to it.\<close>

record request =
  req_url :: string
  req_form :: "(string \<times> string list) list"

record response =
  StatusCode :: int
  Body :: "error + string"

text \<open>
  What the program gets from outside in one invocation: the environment variables, the
  feed parser, the HTML converter, the Telegram endpoint (its answer may depend on the
  requests it received before) and the transport faults of the three Firestore calls.
\<close>

record env =
  Getenv :: "string \<Rightarrow> string"
  ParseURL :: "string \<Rightarrow> error + Feed"
  ConvertString :: "string \<Rightarrow> error + string"
  PostForm :: "request list \<Rightarrow> request \<Rightarrow> error + response"
  GetFault :: "string option"
  UpdateFault :: "string option"
  SetFault :: "string option"

text \<open>
  What the program changes: the collection of chats in Firestore, the requests sent to
  Telegram, the errors printed to the log and, as a history of line 94, the items passed
  to \<^verbatim>\<open>sendToTelegram\<close> with the error each call returned.
\<close>

record world =
  chats :: collection
  requests :: "request list"
  logged :: "error list"
  attempts :: "(Item \<times> error option) list"

definition log_Println :: "error \<Rightarrow> world \<Rightarrow> world" where
  "log_Println err w = w\<lparr>logged := logged w @ [err]\<rparr>"

subsection \<open>Sending one item\<close>

text \<open>The message text of line 168 and the request of lines 170 to 175.\<close>

definition message_text :: "string \<Rightarrow> string \<Rightarrow> string" where
  "message_text title content = ''*'' @ title @ ''*'' @ [CHR 0x0A, CHR 0x0A] @ content"

definition sendMessage :: "string \<Rightarrow> string \<Rightarrow> string \<Rightarrow> request" where
  "sendMessage botAPIToken chatID txt =
     \<lparr>req_url = ''https://api.telegram.org/bot'' @ botAPIToken @ ''/sendMessage'',
      req_form = [(''chat_id'', [chatID]),
                  (''text'', [txt]),
                  (''parse_mode'', [''markdown'']),
                  (''disable_web_page_preview'', [''true''])]\<rparr>"

text \<open>\<^verbatim>\<open>sendToTelegram\<close>, lines 161 to 191.\<close>

definition sendToTelegram ::
  "env \<Rightarrow> string \<Rightarrow> string \<Rightarrow> Item \<Rightarrow> world \<Rightarrow> error option \<times> world" where
  "sendToTelegram e botAPIToken chatID item w =
     (let (content, w1) =
            (case ConvertString e (Content item) of
               Inl err \<Rightarrow> (Content item, log_Println err w)
             | Inr c \<Rightarrow> (c, w));
          req = sendMessage botAPIToken chatID (message_text (Title item) content);
          w2 = w1\<lparr>requests := requests w1 @ [req]\<rparr>
      in case PostForm e (requests w1) req of
           Inl err \<Rightarrow> (Some err, w2)
         | Inr resp \<Rightarrow>
             (case Body resp of
                Inl err \<Rightarrow> (Some err, w2)
              | Inr data \<Rightarrow>
                  if StatusCode resp \<noteq> 200
                  then (Some (BadStatus (StatusCode resp) data), w2)
                  else (None, w2)))"

subsection \<open>The invocation\<close>

text \<open>
  The loop of lines 81 to 97. The counter is \<open>i + 1\<close> for the index \<open>i\<close> of the source,
  which runs from \<open>len(feed.Items) - 1\<close> down to 0; the state is \<^verbatim>\<open>newPublishedAt\<close> and
  the world.
\<close>

fun items_loop ::
  "env \<Rightarrow> string \<Rightarrow> string \<Rightarrow> Item list \<Rightarrow> time \<Rightarrow> nat \<Rightarrow> time \<times> world \<Rightarrow> time \<times> world" where
  "items_loop e botAPIToken chatID items publishedAt 0 s = s"
| "items_loop e botAPIToken chatID items publishedAt (Suc i) (newPublishedAt, w) =
     (case PublishedParsed (items ! i) of
        None \<Rightarrow> items_loop e botAPIToken chatID items publishedAt i (newPublishedAt, w)
      | Some t \<Rightarrow>
          if \<not> After t publishedAt
          then items_loop e botAPIToken chatID items publishedAt i (newPublishedAt, w)
          else
            (let (err, w1) = sendToTelegram e botAPIToken chatID (items ! i) w;
                 w2 = (case err of Some x \<Rightarrow> log_Println x w1 | None \<Rightarrow> w1);
                 w3 = w2\<lparr>attempts := attempts w2 @ [(items ! i, err)]\<rparr>
             in items_loop e botAPIToken chatID items publishedAt i (t, w3)))"

text \<open>
  Lines 78 to 104: the loop from the zero \<^verbatim>\<open>newPublishedAt\<close>, then the write of the
  new published time when it is not zero.
\<close>

definition publish_new ::
  "env \<Rightarrow> string \<Rightarrow> string \<Rightarrow> string \<Rightarrow> Item list \<Rightarrow> time \<Rightarrow> world \<Rightarrow> error option \<times> world" where
  "publish_new e botAPIToken chatID rssFeedURL items publishedAt w =
     (let (newPublishedAt, w1) =
            items_loop e botAPIToken chatID items publishedAt (length items) (0, w)
      in if \<not> IsZero newPublishedAt
         then
           (case writePublishedAt (UpdateFault e) (SetFault e) (chats w1) chatID rssFeedURL
                   newPublishedAt of
              (Some err, col) \<Rightarrow> (Some err, w1\<lparr>chats := col\<rparr>)
            | (None, col) \<Rightarrow> (None, w1\<lparr>chats := col\<rparr>))
         else (None, w1))"

text \<open>\<^verbatim>\<open>RSS2Telegram\<close>, lines 51 to 107.\<close>

definition RSS2Telegram :: "env \<Rightarrow> world \<Rightarrow> error option \<times> world" where
  "RSS2Telegram e w =
     (let rssFeedURL = Getenv e ''RSS_FEED_URL'' in
      if rssFeedURL = '''' then
        (Some (ErrorString ''environment variable RSS_FEED_URL not set''), w)
      else
        let tBotAPIToken = Getenv e ''TELEGRAM_BOT_API_TOKEN'' in
        if tBotAPIToken = '''' then
          (Some (ErrorString ''environment variable TELEGRAM_BOT_API_TOKEN not set''), w)
        else
          let tChatID = Getenv e ''TELEGRAM_CHAT_ID'' in
          if tChatID = '''' then
            (Some (ErrorString ''environment variable TELEGRAM_CHAT_ID not set''), w)
          else
            (case ParseURL e rssFeedURL of
               Inl err \<Rightarrow> (Some err, w)
             | Inr feed \<Rightarrow>
                 (case readPublishedAt (GetFault e) (chats w) tChatID rssFeedURL of
                    Inl err \<Rightarrow> (Some err, w)
                  | Inr publishedAt \<Rightarrow>
                      publish_new e tBotAPIToken tChatID rssFeedURL (Items feed)
                        publishedAt w)))"

subsection \<open>Notions of the specification\<close>

text \<open>
  A new item, in the words of the specification: a feed item with a publish timestamp
  strictly after the watermark.
\<close>

definition new_item :: "time \<Rightarrow> Item \<Rightarrow> bool" where
  "new_item publishedAt item =
     (case PublishedParsed item of None \<Rightarrow> False | Some t \<Rightarrow> publishedAt < t)"

text \<open>The content that lines 162 to 166 put into the message of an item.\<close>

definition rendered :: "env \<Rightarrow> Item \<Rightarrow> string" where
  "rendered e item =
     (case ConvertString e (Content item) of Inl err \<Rightarrow> Content item | Inr c \<Rightarrow> c)"

text \<open>The publish timestamps of the items that have one, in the order of the items.\<close>

fun timestamps :: "Item list \<Rightarrow> time list" where
  "timestamps [] = []"
| "timestamps (item # items) =
     (case PublishedParsed item of None \<Rightarrow> timestamps items | Some t \<Rightarrow> t # timestamps items)"

text \<open>A feed ordered newest-first: the timestamps do not increase along the feed.\<close>

definition newest_first :: "Item list \<Rightarrow> bool" where
  "newest_first items = sorted (rev (timestamps items))"

text \<open>
  The items passed to \<^verbatim>\<open>sendToTelegram\<close> between the world \<open>w\<close> and the later world
  \<open>w'\<close>, in the order of the calls.
\<close>

definition attempted :: "world \<Rightarrow> world \<Rightarrow> Item list" where
  "attempted w w' = map fst (drop (length (attempts w)) (attempts w'))"

subsection \<open>Example inputs\<close>

definition example_item :: "string \<Rightarrow> time option \<Rightarrow> Item" where
  "example_item title t = \<lparr>Title = title, Content = ''<b>news</b>'', PublishedParsed = t\<rparr>"

definition endpoint_ok :: "request list \<Rightarrow> request \<Rightarrow> error + response" where
  "endpoint_ok history req = Inr \<lparr>StatusCode = 200, Body = Inr ''{}''\<rparr>"

definition endpoint_500 :: "request list \<Rightarrow> request \<Rightarrow> error + response" where
  "endpoint_500 history req = Inr \<lparr>StatusCode = 500, Body = Inr ''Internal Server Error''\<rparr>"

definition example_getenv :: "string \<Rightarrow> string" where
  "example_getenv name =
     (if name = ''RSS_FEED_URL'' then ''https://blog.example/feed''
      else if name = ''TELEGRAM_BOT_API_TOKEN'' then ''token''
      else if name = ''TELEGRAM_CHAT_ID'' then ''42''
      else [])"

definition example_env ::
  "Item list \<Rightarrow> (string \<Rightarrow> error + string) \<Rightarrow> (request list \<Rightarrow> request \<Rightarrow> error + response) \<Rightarrow> env" where
  "example_env items conv endpoint =
     \<lparr>Getenv = example_getenv,
      ParseURL = (\<lambda>u. Inr \<lparr>Items = items\<rparr>),
      ConvertString = conv,
      PostForm = endpoint,
      GetFault = None, UpdateFault = None, SetFault = None\<rparr>"

definition empty_world :: world where
  "empty_world = \<lparr>chats = Map.empty, requests = [], logged = [], attempts = []\<rparr>"

definition ordered_feed :: "Item list" where
  "ordered_feed =
     [example_item ''newest'' (Some 30), example_item ''middle'' (Some 20),
      example_item ''oldest'' (Some 10)]"

definition unordered_feed :: "Item list" where
  "unordered_feed = [example_item ''older'' (Some 10), example_item ''newer'' (Some 20)]"


definition example_chats :: collection where
  "example_chats =
     Map.empty(''42'' \<mapsto>
       Map.empty(''publishedAt'' \<mapsto>
           MapV (Map.empty(''https://blog.example/feed'' \<mapsto> TimestampV 20,
                           ''https://other.example/feed'' \<mapsto> TimestampV 5,
                           ''https://bad.example/feed'' \<mapsto> StringV ''yesterday'')),
         ''title'' \<mapsto> StringV ''news channel''),
      ''7'' \<mapsto> Map.empty(''publishedAt'' \<mapsto> StringV ''none''),
      ''8'' \<mapsto> Map.empty(''title'' \<mapsto> StringV ''empty channel''))"

definition failing_converter :: "string \<Rightarrow> error + string" where
  "failing_converter html = Inl (ErrorString ''unexpected end of input'')"

section \<open>Properties\<close>

subsection \<open>Auxiliary facts\<close>

lemma timestamps_append: "timestamps (xs @ ys) = timestamps xs @ timestamps ys"
  by (induction xs) (simp_all split: option.splits)

lemma timestamps_rev: "timestamps (rev xs) = rev (timestamps xs)"
  by (induction xs) (simp_all add: timestamps_append split: option.splits)

lemma timestamps_filter_new:
  "timestamps (filter (new_item p) xs) = filter (\<lambda>t. p < t) (timestamps xs)"
  by (induction xs) (simp_all add: new_item_def split: option.splits)

lemma new_item_iff: "new_item p item \<longleftrightarrow> (\<exists>t. PublishedParsed item = Some t \<and> p < t)"
  by (simp add: new_item_def split: option.splits)

lemma send_chats: "chats (snd (sendToTelegram e tok chat item w)) = chats w"
  by (simp add: sendToTelegram_def log_Println_def Let_def split: sum.splits prod.splits)

lemma send_attempts: "attempts (snd (sendToTelegram e tok chat item w)) = attempts w"
  by (simp add: sendToTelegram_def log_Println_def Let_def split: sum.splits prod.splits)

lemma send_requests:
  "requests (snd (sendToTelegram e tok chat item w)) =
     requests w @ [sendMessage tok chat (message_text (Title item) (rendered e item))]"
  by (simp add: sendToTelegram_def log_Println_def Let_def rendered_def split: sum.splits prod.splits)

lemma loop_Suc_new:
  assumes "PublishedParsed (items ! n) = Some t" and "p < t"
  shows "\<exists>w3. items_loop e tok chat items p (Suc n) (np, w) = items_loop e tok chat items p n (t, w3)
           \<and> chats w3 = chats w
           \<and> map fst (attempts w3) = map fst (attempts w) @ [items ! n]
           \<and> requests w3 = requests w @ [sendMessage tok chat (message_text (Title (items ! n)) (rendered e (items ! n)))]"
proof -
  obtain err w1 where s: "sendToTelegram e tok chat (items ! n) w = (err, w1)"
    by (cases "sendToTelegram e tok chat (items ! n) w")
  have w1: "chats w1 = chats w" "attempts w1 = attempts w"
    "requests w1 = requests w @ [sendMessage tok chat (message_text (Title (items ! n)) (rendered e (items ! n)))]"
    using send_chats[of e tok chat "items ! n" w] send_attempts[of e tok chat "items ! n" w]
      send_requests[of e tok chat "items ! n" w] s by simp_all
  define w2 where "w2 = (case err of Some x \<Rightarrow> log_Println x w1 | None \<Rightarrow> w1)"
  define w3 where "w3 = w2\<lparr>attempts := attempts w2 @ [(items ! n, err)]\<rparr>"
  have w2: "chats w2 = chats w1" "attempts w2 = attempts w1" "requests w2 = requests w1"
    by (simp_all add: w2_def log_Println_def split: option.splits)
  have step: "items_loop e tok chat items p (Suc n) (np, w) = items_loop e tok chat items p n (t, w3)"
    using assms s by (simp add: After_def Let_def w2_def w3_def)
  have "chats w3 = chats w" "map fst (attempts w3) = map fst (attempts w) @ [items ! n]"
    "requests w3 = requests w @ [sendMessage tok chat (message_text (Title (items ! n)) (rendered e (items ! n)))]"
    using w1 w2 by (simp_all add: w3_def)
  with step show ?thesis by blast
qed

lemma loop_Suc_old:
  assumes "\<not> new_item p (items ! n)"
  shows "items_loop e tok chat items p (Suc n) (np, w) = items_loop e tok chat items p n (np, w)"
  using assms by (simp add: new_item_def After_def split: option.splits)

declare items_loop.simps(2) [simp del]

lemma loop_chats:
  "chats (snd (items_loop e tok chat items p n (np, w))) = chats w"
proof (induction n arbitrary: np w)
  case 0
  show ?case by simp
next
  case (Suc n)
  show ?case
  proof (cases "new_item p (items ! n)")
    case False
    show ?thesis unfolding loop_Suc_old[OF False] by (rule Suc.IH)
  next
    case True
    then obtain t where t: "PublishedParsed (items ! n) = Some t" "p < t"
      by (auto simp: new_item_iff)
    from loop_Suc_new[OF t, of e tok chat np w] Suc.IH show ?thesis by auto
  qed
qed

lemma loop_attempts:
  "n \<le> length items \<Longrightarrow>
   map fst (attempts (snd (items_loop e tok chat items p n (np, w)))) =
     map fst (attempts w) @ filter (new_item p) (rev (take n items))"
proof (induction n arbitrary: np w)
  case 0
  show ?case by simp
next
  case (Suc n)
  then have n: "n < length items" "n \<le> length items" by simp_all
  show ?case
  proof (cases "new_item p (items ! n)")
    case False
    then show ?thesis
      using n Suc.IH[OF n(2)] unfolding loop_Suc_old[OF False] by (simp add: take_Suc_conv_app_nth)
  next
    case True
    then obtain t where t: "PublishedParsed (items ! n) = Some t" "p < t"
      by (auto simp: new_item_iff)
    from loop_Suc_new[OF t, of e tok chat np w] Suc.IH[OF n(2)] True n show ?thesis
      by (auto simp: take_Suc_conv_app_nth)
  qed
qed

lemma loop_requests:
  "n \<le> length items \<Longrightarrow>
   requests (snd (items_loop e tok chat items p n (np, w))) =
     requests w @ map (\<lambda>item. sendMessage tok chat (message_text (Title item) (rendered e item)))
                    (filter (new_item p) (rev (take n items)))"
proof (induction n arbitrary: np w)
  case 0
  show ?case by simp
next
  case (Suc n)
  then have n: "n < length items" "n \<le> length items" by simp_all
  show ?case
  proof (cases "new_item p (items ! n)")
    case False
    then show ?thesis
      using n Suc.IH[OF n(2)] unfolding loop_Suc_old[OF False] by (simp add: take_Suc_conv_app_nth)
  next
    case True
    then obtain t where t: "PublishedParsed (items ! n) = Some t" "p < t"
      by (auto simp: new_item_iff)
    from loop_Suc_new[OF t, of e tok chat np w] Suc.IH[OF n(2)] True n show ?thesis
      by (auto simp: take_Suc_conv_app_nth)
  qed
qed

lemma loop_newPublishedAt:
  "n \<le> length items \<Longrightarrow>
   fst (items_loop e tok chat items p n (np, w)) =
     (case timestamps (filter (new_item p) (take n items)) of [] \<Rightarrow> np | t # ts \<Rightarrow> t)"
proof (induction n arbitrary: np w)
  case 0
  show ?case by simp
next
  case (Suc n)
  then have n: "n < length items" "n \<le> length items" by simp_all
  show ?case
  proof (cases "new_item p (items ! n)")
    case False
    then show ?thesis
      using n Suc.IH[OF n(2)] unfolding loop_Suc_old[OF False] by (simp add: take_Suc_conv_app_nth)
  next
    case True
    then obtain t where t: "PublishedParsed (items ! n) = Some t" "p < t"
      by (auto simp: new_item_iff)
    from loop_Suc_new[OF t, of e tok chat np w] Suc.IH[OF n(2)] True n t show ?thesis
      by (auto simp: take_Suc_conv_app_nth timestamps_append split: list.splits)
  qed
qed

lemma loop_attempted:
  "attempted w (snd (items_loop e tok chat items p (length items) (np, w))) =
     filter (new_item p) (rev items)"
proof -
  have len: "length (attempts w) \<le> length (attempts (snd (items_loop e tok chat items p (length items) (np, w))))"
    using arg_cong[OF loop_attempts[of "length items" items e tok chat p np w], of length] by simp
  have "map fst (drop (length (attempts w)) (attempts (snd (items_loop e tok chat items p (length items) (np, w)))))
        = drop (length (map fst (attempts w))) (map fst (attempts (snd (items_loop e tok chat items p (length items) (np, w)))))"
    by (simp add: drop_map)
  also have "\<dots> = filter (new_item p) (rev items)"
    by (simp only: loop_attempts[OF order_refl] take_all[OF order_refl]) simp
  finally show ?thesis by (simp add: attempted_def)
qed

lemma toTimestamp_Inr: "toTimestamp t = Inr ts \<Longrightarrow> int ts = t \<and> 0 \<le> t"
  by (auto simp: toTimestamp_def split: if_splits)

lemma read_normal:
  "readPublishedAt fault col chatID rssURL =
     (case fault of
        Some msg \<Rightarrow> Inl (StatusError Unavailable msg)
      | None \<Rightarrow>
          (case col chatID of
             None \<Rightarrow> Inr 0
           | Some d \<Rightarrow>
               (case d ''publishedAt'' of
                  Some (MapV m) \<Rightarrow> (case m rssURL of Some (TimestampV n) \<Rightarrow> Inr (int n) | _ \<Rightarrow> Inr 0)
                | _ \<Rightarrow> Inr 0)))"
  by (simp add: readPublishedAt_def doc_Get_def split: option.splits fs_value.splits)

lemma read_nonneg: "readPublishedAt fault col chatID rssURL = Inr p \<Longrightarrow> 0 \<le> p"
  by (auto simp: read_normal split: option.splits fs_value.splits)

lemma read_fault_free: "readPublishedAt fault col chatID rssURL = Inr p \<Longrightarrow> fault = None"
  by (auto simp: read_normal split: option.splits fs_value.splits)

lemma write_normal:
  "writePublishedAt ufault sfault col chatID rssURL t =
     (case toTimestamp t of
        Inl err \<Rightarrow> (Some err, col)
      | Inr ts \<Rightarrow>
          (case ufault of
             Some msg \<Rightarrow> (Some (StatusError Unavailable msg), col)
           | None \<Rightarrow>
               (case col chatID of
                  Some d \<Rightarrow>
                    (None, col(chatID \<mapsto> d(''publishedAt'' \<mapsto>
                       MapV ((case d ''publishedAt'' of Some (MapV m) \<Rightarrow> m | _ \<Rightarrow> Map.empty)
                               (rssURL \<mapsto> TimestampV ts)))))
                | None \<Rightarrow>
                    (case sfault of
                       Some msg \<Rightarrow> (Some (StatusError Unavailable msg), col)
                     | None \<Rightarrow>
                         (None, col(chatID \<mapsto> Map.empty(''publishedAt'' \<mapsto>
                            MapV (Map.empty(rssURL \<mapsto> TimestampV ts)))))))))"
  by (simp add: writePublishedAt_def doc_Update_def doc_Set_def split: sum.splits option.splits)

lemma write_failed_unchanged:
  "writePublishedAt ufault sfault col chatID rssURL t = (Some err, col') \<Longrightarrow> col' = col"
  by (auto simp: write_normal split: sum.splits option.splits)

lemma write_read_back:
  "writePublishedAt ufault sfault col chatID rssURL t = (None, col') \<Longrightarrow>
   readPublishedAt None col' chatID rssURL = Inr t"
proof -
  assume w: "writePublishedAt ufault sfault col chatID rssURL t = (None, col')"
  then obtain ts where ts: "toTimestamp t = Inr ts"
    by (cases "toTimestamp t") (auto simp: write_normal)
  then have "int ts = t" by (simp add: toTimestamp_Inr)
  with w ts show ?thesis
    by (auto simp: write_normal read_normal split: option.splits)
qed

lemma write_other_url:
  "u \<noteq> rssURL \<Longrightarrow>
   readPublishedAt None (snd (writePublishedAt ufault sfault col chatID rssURL t)) chatID u =
     readPublishedAt None col chatID u"
  by (auto simp: write_normal read_normal split: sum.splits option.splits fs_value.splits)

lemma write_other_chat:
  "c \<noteq> chatID \<Longrightarrow> snd (writePublishedAt ufault sfault col chatID rssURL t) c = col c"
  by (auto simp: write_normal split: sum.splits option.splits)

lemma new_head_after:
  "timestamps (filter (new_item p) items) = t # ts \<Longrightarrow> p < t"
proof -
  assume "timestamps (filter (new_item p) items) = t # ts"
  then have "t \<in> set (filter (\<lambda>t. p < t) (timestamps items))"
    by (simp add: timestamps_filter_new)
  then show ?thesis by simp
qed

lemma publish_new_attempted:
  "attempted w (snd (publish_new e tok chat url items p w)) = filter (new_item p) (rev items)"
proof -
  obtain np w1 where l: "items_loop e tok chat items p (length items) (0, w) = (np, w1)"
    by (cases "items_loop e tok chat items p (length items) (0, w)")
  have "attempted w w1 = filter (new_item p) (rev items)"
    using loop_attempted[of w e tok chat items p 0] l by simp
  then show ?thesis
    by (simp add: publish_new_def l attempted_def split: prod.splits option.splits)
qed

lemma publish_new_result:
  "(fst (publish_new e tok chat url items p w), chats (snd (publish_new e tok chat url items p w))) =
     (case timestamps (filter (new_item p) items) of
        [] \<Rightarrow> (None, chats w)
      | t # ts \<Rightarrow>
          if t = 0 then (None, chats w)
          else writePublishedAt (UpdateFault e) (SetFault e) (chats w) chat url t)"
proof -
  obtain np w1 where l: "items_loop e tok chat items p (length items) (0, w) = (np, w1)"
    by (cases "items_loop e tok chat items p (length items) (0, w)")
  have c: "chats w1 = chats w"
    using loop_chats[of e tok chat items p "length items" 0 w] l by simp
  have n: "np = (case timestamps (filter (new_item p) items) of [] \<Rightarrow> 0 | t # ts \<Rightarrow> t)"
    using loop_newPublishedAt[of "length items" items e tok chat p 0 w] l by simp
  show ?thesis
    by (simp add: publish_new_def l c n IsZero_def split: prod.splits option.splits list.splits)
qed


lemma attempted_same: "attempted w w = []"
  by (simp add: attempted_def)

lemma RSS2Telegram_cases:
  "(\<exists>err. RSS2Telegram e w = (Some err, w)) \<or>
   (\<exists>feed p. ParseURL e (Getenv e ''RSS_FEED_URL'') = Inr feed \<and>
      readPublishedAt (GetFault e) (chats w) (Getenv e ''TELEGRAM_CHAT_ID'') (Getenv e ''RSS_FEED_URL'') = Inr p \<and>
      RSS2Telegram e w =
        publish_new e (Getenv e ''TELEGRAM_BOT_API_TOKEN'') (Getenv e ''TELEGRAM_CHAT_ID'')
          (Getenv e ''RSS_FEED_URL'') (Items feed) p w)"
  by (simp add: RSS2Telegram_def Let_def split: sum.splits)

lemma loop_skip_range:
  "k \<le> n \<Longrightarrow> (\<forall>j. k \<le> j \<and> j < n \<longrightarrow> \<not> new_item p (items ! j)) \<Longrightarrow>
   items_loop e tok chat items p n s = items_loop e tok chat items p k s"
proof (induction n)
  case 0
  then show ?case by simp
next
  case (Suc n)
  show ?case
  proof (cases "k = Suc n")
    case True
    then show ?thesis by simp
  next
    case False
    with Suc.prems have k: "k \<le> n" by simp
    have old: "\<not> new_item p (items ! n)" using Suc.prems k by simp
    have "items_loop e tok chat items p (Suc n) s = items_loop e tok chat items p n s"
      using loop_Suc_old[OF old, of e tok chat "fst s" "snd s"] by simp
    also have "\<dots> = items_loop e tok chat items p k s"
      using Suc.IH[OF k] Suc.prems(2) by simp
    finally show ?thesis .
  qed
qed

lemma loop_nothing_new:
  assumes "filter (new_item p) items = []"
  shows "items_loop e tok chat items p (length items) s = s"
proof -
  have "\<forall>j. 0 \<le> j \<and> j < length items \<longrightarrow> \<not> new_item p (items ! j)"
    using assms by (auto simp: filter_empty_conv)
  from loop_skip_range[OF _ this, of e tok chat s] show ?thesis by simp
qed


lemma newest_first_head:
  assumes "sorted (rev xs)" and "filter (\<lambda>x. p < x) xs = t # ts"
  shows "\<forall>x\<in>set xs. x \<le> (t::int)"
proof (cases xs)
  case Nil
  with assms show ?thesis by simp
next
  case (Cons a as)
  with assms(1) have le: "\<forall>x\<in>set as. x \<le> a"
    by (simp add: sorted_append)
  have "t \<in> set (filter (\<lambda>x. p < x) xs)" using assms(2) by simp
  then have "t \<in> set xs" "p < t" by simp_all
  with le Cons have "p < a" by auto
  with assms(2) Cons have "t = a" by simp
  with le Cons show ?thesis by simp
qed

lemma newest_first_Max:
  assumes "sorted (rev xs)" and "filter (\<lambda>x. p < x) xs = t # ts"
  shows "Max (set (filter (\<lambda>x. p < x) xs)) = (t::int)"
proof (rule Max_eqI)
  show "finite (set (filter (\<lambda>x. p < x) xs))" by simp
  show "\<And>y. y \<in> set (filter (\<lambda>x. p < x) xs) \<Longrightarrow> y \<le> t"
    using newest_first_head[OF assms] by simp
  show "t \<in> set (filter (\<lambda>x. p < x) xs)" using assms(2) by simp
qed

lemmas example_defs =
  ordered_feed_def unordered_feed_def example_item_def example_env_def example_getenv_def
  endpoint_ok_def endpoint_500_def empty_world_def

lemmas program_defs =
  items_loop.simps sendToTelegram_def sendMessage_def message_text_def log_Println_def
  After_def IsZero_def publish_new_def RSS2Telegram_def readPublishedAt_def
  writePublishedAt_def doc_Get_def doc_Update_def doc_Set_def toTimestamp_def
  maxTimestamp_def attempted_def newest_first_def new_item_def Let_def split_beta

lemma timestamps_new_empty:
  "timestamps (filter (new_item p) xs) = [] \<longleftrightarrow> filter (new_item p) xs = []"
  by (induction xs) (simp_all add: new_item_def split: option.splits)

lemma attempted_timestamps:
  "rev (timestamps (filter (new_item p) (rev items))) = filter (\<lambda>t. p < t) (timestamps items)"
  by (simp add: timestamps_filter_new timestamps_rev rev_filter)


lemma publish_new_chats:
  "chats (snd (publish_new e tok chat url items p w)) =
     snd (case timestamps (filter (new_item p) items) of
            [] \<Rightarrow> (None, chats w)
          | t # ts \<Rightarrow>
              if t = 0 then (None, chats w)
              else writePublishedAt (UpdateFault e) (SetFault e) (chats w) chat url t)"
  using arg_cong[OF publish_new_result[of e tok chat url items p w], of snd] by simp








lemma read_total: "\<exists>p. readPublishedAt None col chatID rssURL = Inr p"
  by (simp add: read_normal split: option.splits fs_value.splits)

subsection \<open>Selection of the new items\<close>

text \<open>
  C1. For every feed and every watermark, the items passed to \<^verbatim>\<open>sendToTelegram\<close> by the
  loop are exactly the items that have a publish timestamp strictly after the
  watermark, taken in the order of the loop (the feed reversed), and one request is
  sent for each of them. So an item without a timestamp is never selected, and an item
  whose timestamp equals the watermark is not selected.
\<close>

theorem selected_iff_published_after_watermark:
  "attempted w (snd (items_loop e tok chat items publishedAt (length items) (np, w))) =
     filter (\<lambda>item. \<exists>t. PublishedParsed item = Some t \<and> After t publishedAt) (rev items)
   \<and> requests (snd (items_loop e tok chat items publishedAt (length items) (np, w))) =
     requests w @
     map (\<lambda>item. sendMessage tok chat (message_text (Title item) (rendered e item)))
       (filter (\<lambda>item. \<exists>t. PublishedParsed item = Some t \<and> After t publishedAt) (rev items))"
proof -
  have p: "(\<lambda>item. \<exists>t. PublishedParsed item = Some t \<and> After t publishedAt) = new_item publishedAt"
    by (rule ext) (simp add: new_item_iff After_def)
  show ?thesis
    unfolding p using loop_requests[of "length items" items e tok chat publishedAt np w]
    by (simp add: loop_attempted)
qed

subsection \<open>The new watermark\<close>

text \<open>
  C2, as amended. After the loop, \<^verbatim>\<open>newPublishedAt\<close> is the publish timestamp of the
  last item that was attempted (the selected item with the smallest index in the feed),
  and zero when no item was attempted. When the feed is ordered newest-first and an item
  was attempted, this is the maximum publish timestamp among the attempted items. When no
  item was attempted, lines 78 to 104 return no error and change nothing, so no
  watermark is written.
\<close>

theorem new_watermark_is_last_attempted:
  assumes "items_loop e tok chat items publishedAt (length items) (0, w) = (newPublishedAt, w1)"
  shows "newPublishedAt = (case rev (timestamps (attempted w w1)) of [] \<Rightarrow> 0 | t # ts \<Rightarrow> t)
    \<and> (newest_first items \<and> attempted w w1 \<noteq> [] \<longrightarrow>
         newPublishedAt = Max (set (timestamps (attempted w w1))))
    \<and> (attempted w w1 = [] \<longrightarrow>
         publish_new e tok chat url items publishedAt w = (None, w))"
proof -
  have a: "attempted w w1 = filter (new_item publishedAt) (rev items)"
    using loop_attempted[of w e tok chat items publishedAt 0] assms by simp
  have r: "rev (timestamps (attempted w w1)) = filter (\<lambda>t. publishedAt < t) (timestamps items)"
    by (simp only: a attempted_timestamps)
  have n: "newPublishedAt =
      (case filter (\<lambda>t. publishedAt < t) (timestamps items) of [] \<Rightarrow> 0 | t # ts \<Rightarrow> t)"
    using loop_newPublishedAt[of "length items" items e tok chat publishedAt 0 w] assms
    by (simp add: timestamps_filter_new)
  have 1: "newPublishedAt = (case rev (timestamps (attempted w w1)) of [] \<Rightarrow> 0 | t # ts \<Rightarrow> t)"
    by (simp only: r n)
  have 2: "newPublishedAt = Max (set (timestamps (attempted w w1)))"
    if "newest_first items" "attempted w w1 \<noteq> []"
  proof -
    have "filter (\<lambda>t. publishedAt < t) (timestamps items) \<noteq> []"
      using that(2) timestamps_new_empty[of publishedAt items]
      by (simp add: a timestamps_filter_new rev_filter[symmetric])
    then obtain t ts where f: "filter (\<lambda>t. publishedAt < t) (timestamps items) = t # ts"
      by (cases "filter (\<lambda>t. publishedAt < t) (timestamps items)") auto
    have "set (timestamps (attempted w w1)) = set (filter (\<lambda>t. publishedAt < t) (timestamps items))"
      using arg_cong[OF r, of set] by simp
    then show ?thesis
      using newest_first_Max[OF _ f] that(1) n f by (simp add: newest_first_def)
  qed
  have 3: "publish_new e tok chat url items publishedAt w = (None, w)"
    if "attempted w w1 = []"
  proof -
    have "filter (new_item publishedAt) items = []"
      using that by (simp add: a rev_filter[symmetric])
    from loop_nothing_new[OF this, of e tok chat "(0, w)"] show ?thesis
      by (simp add: publish_new_def IsZero_def)
  qed
  from 1 2 3 show ?thesis by blast
qed

text \<open>
  A feed ordered newest-first with the watermark 10: the items at 20 and 30 are attempted
  and the new watermark is 30, their maximum. With the watermark 30 nothing is attempted
  and nothing changes.
\<close>

theorem new_watermark_is_last_attempted_witness:
  "newest_first ordered_feed
   \<and> timestamps (attempted empty_world
        (snd (items_loop (example_env [] Inr endpoint_500) ''token'' ''42'' ordered_feed 10
                (length ordered_feed) (0, empty_world)))) = [20, 30]
   \<and> fst (items_loop (example_env [] Inr endpoint_500) ''token'' ''42'' ordered_feed 10
                (length ordered_feed) (0, empty_world)) = 30
   \<and> Max (set (timestamps (attempted empty_world
        (snd (items_loop (example_env [] Inr endpoint_500) ''token'' ''42'' ordered_feed 10
                (length ordered_feed) (0, empty_world)))))) = 30
   \<and> attempted empty_world
        (snd (items_loop (example_env [] Inr endpoint_500) ''token'' ''42'' ordered_feed 30
                (length ordered_feed) (0, empty_world))) = []
   \<and> publish_new (example_env [] Inr endpoint_500) ''token'' ''42'' ''https://blog.example/feed''
        ordered_feed 30 empty_world = (None, empty_world)"
proof -
  let ?e = "example_env [] Inr endpoint_500"
  let ?l = "\<lambda>p. items_loop ?e ''token'' ''42'' ordered_feed p (length ordered_feed) (0, empty_world)"
  have l10: "?l 10 = (fst (?l 10), snd (?l 10))" and l30: "?l 30 = (fst (?l 30), snd (?l 30))"
    by simp_all
  have s: "newest_first ordered_feed"
    by (simp add: example_defs newest_first_def)
  have a10: "timestamps (attempted empty_world (snd (?l 10))) = [20, 30]"
    by (simp add: example_defs program_defs)
  have a30: "attempted empty_world (snd (?l 30)) = []"
    by (simp add: example_defs program_defs)
  have f10: "fst (?l 10) = 30"
    by (simp add: example_defs program_defs)
  from new_watermark_is_last_attempted[OF l10, of "''https://blog.example/feed''"] s a10
  have m: "fst (?l 10) = Max (set (timestamps (attempted empty_world (snd (?l 10)))))"
    by fastforce
  from new_watermark_is_last_attempted[OF l30, of "''https://blog.example/feed''"] a30
  have p: "publish_new ?e ''token'' ''42'' ''https://blog.example/feed'' ordered_feed 30 empty_world
      = (None, empty_world)"
    by blast
  from s a10 f10 m p a30 show ?thesis by simp
qed

text \<open>
  The claim as it was stated, with the maximum for every feed, fails on a feed that lists
  the older item first: both items are attempted, the new watermark is 10 and the maximum
  is 20.
\<close>

theorem new_watermark_not_maximum_counterexample:
  "fst (items_loop (example_env [] Inr endpoint_ok) ''token'' ''42'' unordered_feed 0
          (length unordered_feed) (0, empty_world)) = 10
   \<and> Max (set (timestamps (attempted empty_world
        (snd (items_loop (example_env [] Inr endpoint_ok) ''token'' ''42'' unordered_feed 0
                (length unordered_feed) (0, empty_world)))))) = 20
   \<and> fst (items_loop (example_env [] Inr endpoint_ok) ''token'' ''42'' unordered_feed 0
          (length unordered_feed) (0, empty_world)) \<noteq>
       Max (set (timestamps (attempted empty_world
        (snd (items_loop (example_env [] Inr endpoint_ok) ''token'' ''42'' unordered_feed 0
                (length unordered_feed) (0, empty_world))))))"
  by (simp add: example_defs program_defs)

subsection \<open>The order of delivery\<close>

text \<open>
  C3, as amended. Every attempted item has a publish timestamp strictly greater than the
  watermark. The attempted items are the new items in the reversed order of the feed; when
  the feed is ordered newest-first, their publish timestamps do not decrease.
\<close>

theorem selected_after_watermark_in_loop_order:
  assumes "items_loop e tok chat items publishedAt (length items) (np, w) = (newPublishedAt, w1)"
  shows "(\<forall>item\<in>set (attempted w w1). \<exists>t. PublishedParsed item = Some t \<and> publishedAt < t)
    \<and> attempted w w1 = filter (new_item publishedAt) (rev items)
    \<and> (newest_first items \<longrightarrow> sorted (timestamps (attempted w w1)))"
proof -
  have a: "attempted w w1 = filter (new_item publishedAt) (rev items)"
    using loop_attempted[of w e tok chat items publishedAt np] assms by simp
  have 1: "\<forall>item\<in>set (attempted w w1). \<exists>t. PublishedParsed item = Some t \<and> publishedAt < t"
    by (simp add: a new_item_iff)
  have 3: "sorted (timestamps (attempted w w1))" if "newest_first items"
  proof -
    have "timestamps (attempted w w1) = filter (\<lambda>t. publishedAt < t) (rev (timestamps items))"
      by (simp add: a timestamps_filter_new timestamps_rev)
    with that show ?thesis
      by (simp add: newest_first_def sorted_wrt_filter)
  qed
  from a 1 3 show ?thesis by blast
qed

text \<open>On the feed ordered newest-first the items at 20 and 30 are sent in this order.\<close>

theorem selected_after_watermark_in_loop_order_witness:
  "newest_first ordered_feed
   \<and> attempted empty_world
        (snd (items_loop (example_env [] Inr endpoint_ok) ''token'' ''42'' ordered_feed 10
                (length ordered_feed) (0, empty_world))) =
       [example_item ''middle'' (Some 20), example_item ''newest'' (Some 30)]
   \<and> sorted (timestamps (attempted empty_world
        (snd (items_loop (example_env [] Inr endpoint_ok) ''token'' ''42'' ordered_feed 10
                (length ordered_feed) (0, empty_world)))))"
proof -
  let ?l = "items_loop (example_env [] Inr endpoint_ok) ''token'' ''42'' ordered_feed 10
              (length ordered_feed) (0, empty_world)"
  have l: "?l = (fst ?l, snd ?l)" by simp
  have s: "newest_first ordered_feed"
    by (simp add: example_defs newest_first_def)
  have a: "attempted empty_world (snd ?l) =
      [example_item ''middle'' (Some 20), example_item ''newest'' (Some 30)]"
    by (simp add: example_defs program_defs)
  from selected_after_watermark_in_loop_order[OF l] s
  have "sorted (timestamps (attempted empty_world (snd ?l)))" by blast
  with s a show ?thesis by simp
qed

text \<open>
  The claim as it was stated, for every feed, fails on the feed that lists the older item
  first: the item at 20 is sent before the item at 10.
\<close>

theorem emitted_out_of_order_counterexample:
  "timestamps (attempted empty_world
     (snd (items_loop (example_env [] Inr endpoint_ok) ''token'' ''42'' unordered_feed 0
             (length unordered_feed) (0, empty_world)))) = [20, 10]
   \<and> \<not> sorted (timestamps (attempted empty_world
     (snd (items_loop (example_env [] Inr endpoint_ok) ''token'' ''42'' unordered_feed 0
             (length unordered_feed) (0, empty_world)))))"
  by (simp add: example_defs program_defs)

subsection \<open>Running twice\<close>

text \<open>
  C4, as amended. Let all items of the feed carry a publish timestamp and let the feed be
  ordered newest-first. After an invocation that returned no error, a second invocation
  with the same configuration and the same feed, on the state the first one left, passes
  no item to \<^verbatim>\<open>sendToTelegram\<close>.
\<close>

theorem no_redelivery_for_newest_first_feed:
  assumes parse: "ParseURL e (Getenv e ''RSS_FEED_URL'') = Inr feed"
    and dated: "\<forall>item\<in>set (Items feed). PublishedParsed item \<noteq> None"
    and ordered: "newest_first (Items feed)"
    and first: "RSS2Telegram e w = (None, w1)"
    and same: "Getenv e2 = Getenv e" "ParseURL e2 = ParseURL e"
  shows "attempted w1 (snd (RSS2Telegram e2 w1)) = []"
proof -
  let ?url = "Getenv e ''RSS_FEED_URL''" and ?chat = "Getenv e ''TELEGRAM_CHAT_ID''"
  let ?tok = "Getenv e ''TELEGRAM_BOT_API_TOKEN''"
  from RSS2Telegram_cases[of e w] first parse obtain p
    where read1: "readPublishedAt (GetFault e) (chats w) ?chat ?url = Inr p"
      and run1: "publish_new e ?tok ?chat ?url (Items feed) p w = (None, w1)"
    by auto
  have p0: "0 \<le> p" using read1 by (rule read_nonneg)
  have stored: "readPublishedAt None (chats w) ?chat ?url = Inr p"
    using read1 read_fault_free[OF read1] by simp
  from publish_new_result[of e ?tok ?chat ?url "Items feed" p w] run1
  have res: "(None, chats w1) =
     (case timestamps (filter (new_item p) (Items feed)) of
        [] \<Rightarrow> (None, chats w)
      | t # ts \<Rightarrow>
          if t = 0 then (None, chats w)
          else writePublishedAt (UpdateFault e) (SetFault e) (chats w) ?chat ?url t)"
    by simp
  have none_new: "\<exists>q. readPublishedAt None (chats w1) ?chat ?url = Inr q
      \<and> filter (new_item q) (Items feed) = []"
  proof (cases "timestamps (filter (new_item p) (Items feed))")
    case Nil
    with res have "chats w1 = chats w" by simp
    with stored Nil show ?thesis by (auto simp: timestamps_new_empty)
  next
    case (Cons t ts)
    then have pt: "p < t" by (rule new_head_after)
    with p0 res Cons have "writePublishedAt (UpdateFault e) (SetFault e) (chats w) ?chat ?url t
        = (None, chats w1)" by simp
    then have readback: "readPublishedAt None (chats w1) ?chat ?url = Inr t"
      by (rule write_read_back)
    have "\<forall>x\<in>set (timestamps (Items feed)). x \<le> t"
      using newest_first_head[of "timestamps (Items feed)" p t ts] ordered Cons
      by (simp add: newest_first_def timestamps_filter_new)
    then have "filter (\<lambda>x. t < x) (timestamps (Items feed)) = []"
      by (auto simp: filter_empty_conv)
    then have "filter (new_item t) (Items feed) = []"
      by (simp add: timestamps_new_empty[symmetric] timestamps_filter_new)
    with readback show ?thesis by blast
  qed
  then obtain q where q: "readPublishedAt None (chats w1) ?chat ?url = Inr q"
    and nq: "filter (new_item q) (Items feed) = []" by blast
  from RSS2Telegram_cases[of e2 w1] show ?thesis
  proof (elim disjE exE conjE)
    fix err assume "RSS2Telegram e2 w1 = (Some err, w1)"
    then show ?thesis by (simp add: attempted_same)
  next
    fix feed2 p2
    assume p2: "ParseURL e2 (Getenv e2 ''RSS_FEED_URL'') = Inr feed2"
      and r2: "readPublishedAt (GetFault e2) (chats w1) (Getenv e2 ''TELEGRAM_CHAT_ID'')
                 (Getenv e2 ''RSS_FEED_URL'') = Inr p2"
      and run2: "RSS2Telegram e2 w1 =
        publish_new e2 (Getenv e2 ''TELEGRAM_BOT_API_TOKEN'') (Getenv e2 ''TELEGRAM_CHAT_ID'')
          (Getenv e2 ''RSS_FEED_URL'') (Items feed2) p2 w1"
    have "feed2 = feed" using p2 parse same by simp
    moreover have "p2 = q" using r2 read_fault_free[OF r2] q same by simp
    ultimately show ?thesis
      using nq by (simp add: run2 publish_new_attempted rev_filter[symmetric])
  qed
qed

text \<open>
  The feed ordered newest-first on the empty store: the first invocation sends the three
  items, the second sends none.
\<close>

theorem no_redelivery_for_newest_first_feed_witness:
  "map PublishedParsed ordered_feed = [Some 30, Some 20, Some 10]
   \<and> newest_first ordered_feed
   \<and> fst (RSS2Telegram (example_env ordered_feed Inr endpoint_ok) empty_world) = None
   \<and> attempted empty_world
        (snd (RSS2Telegram (example_env ordered_feed Inr endpoint_ok) empty_world)) =
      [example_item ''oldest'' (Some 10), example_item ''middle'' (Some 20),
       example_item ''newest'' (Some 30)]
   \<and> attempted (snd (RSS2Telegram (example_env ordered_feed Inr endpoint_ok) empty_world))
        (snd (RSS2Telegram (example_env ordered_feed Inr endpoint_ok)
           (snd (RSS2Telegram (example_env ordered_feed Inr endpoint_ok) empty_world)))) = []"
proof -
  let ?e = "example_env ordered_feed Inr endpoint_ok"
  let ?w1 = "snd (RSS2Telegram ?e empty_world)"
  have parse: "ParseURL ?e (Getenv ?e ''RSS_FEED_URL'') = Inr \<lparr>Items = ordered_feed\<rparr>"
    by (simp add: example_env_def)
  have ts: "map PublishedParsed ordered_feed = [Some 30, Some 20, Some 10]"
    by (simp add: example_defs)
  have dated: "\<forall>item\<in>set (Items \<lparr>Items = ordered_feed\<rparr>). PublishedParsed item \<noteq> None"
    by (simp add: example_defs)
  have ordered: "newest_first (Items \<lparr>Items = ordered_feed\<rparr>)"
    by (simp add: example_defs newest_first_def)
  have ok: "fst (RSS2Telegram ?e empty_world) = None"
    by (simp add: example_defs program_defs)
  then have first: "RSS2Telegram ?e empty_world = (None, ?w1)"
    by (metis prod.collapse)
  have a: "attempted empty_world ?w1 =
      [example_item ''oldest'' (Some 10), example_item ''middle'' (Some 20),
       example_item ''newest'' (Some 30)]"
    by (simp add: example_defs program_defs)
  from no_redelivery_for_newest_first_feed[OF parse dated ordered first refl refl]
  have "attempted ?w1 (snd (RSS2Telegram ?e ?w1)) = []" .
  with ts ordered ok a show ?thesis by simp
qed

text \<open>
  The claim as it was stated, for every feed whose items carry timestamps, fails on the
  feed that lists the older item first: the first invocation stores 10, the timestamp of
  the item it processed last, and the second invocation sends the item at 20 again.
\<close>

theorem redelivery_for_unordered_feed_counterexample:
  "map PublishedParsed unordered_feed = [Some 10, Some 20]
   \<and> fst (RSS2Telegram (example_env unordered_feed Inr endpoint_ok) empty_world) = None
   \<and> readPublishedAt None
        (chats (snd (RSS2Telegram (example_env unordered_feed Inr endpoint_ok) empty_world)))
        ''42'' ''https://blog.example/feed'' = Inr 10
   \<and> attempted (snd (RSS2Telegram (example_env unordered_feed Inr endpoint_ok) empty_world))
        (snd (RSS2Telegram (example_env unordered_feed Inr endpoint_ok)
           (snd (RSS2Telegram (example_env unordered_feed Inr endpoint_ok) empty_world)))) =
      [example_item ''newer'' (Some 20)]"
  by (simp add: example_defs program_defs)

subsection \<open>Failed deliveries\<close>



subsection \<open>Monotonicity of the stored watermark\<close>

text \<open>
  C6. For the chat and the feed URL of an invocation, the watermark in the store after the
  invocation is not less than the one before it; when the invocation changed the store,
  it is strictly greater.
\<close>

theorem stored_watermark_never_decreases:
  "\<exists>p p'. readPublishedAt None (chats w) (Getenv e ''TELEGRAM_CHAT_ID'')
              (Getenv e ''RSS_FEED_URL'') = Inr p
     \<and> readPublishedAt None (chats (snd (RSS2Telegram e w))) (Getenv e ''TELEGRAM_CHAT_ID'')
              (Getenv e ''RSS_FEED_URL'') = Inr p'
     \<and> p \<le> p'
     \<and> (chats (snd (RSS2Telegram e w)) = chats w \<or> p < p')"
proof -
  let ?url = "Getenv e ''RSS_FEED_URL''" and ?chat = "Getenv e ''TELEGRAM_CHAT_ID''"
  let ?tok = "Getenv e ''TELEGRAM_BOT_API_TOKEN''"
  obtain p where p: "readPublishedAt None (chats w) ?chat ?url = Inr p"
    using read_total by blast
  have same: ?thesis if "chats (snd (RSS2Telegram e w)) = chats w"
    using p that by simp
  from RSS2Telegram_cases[of e w] show ?thesis
  proof (elim disjE exE conjE)
    fix err assume "RSS2Telegram e w = (Some err, w)"
    then have "chats (snd (RSS2Telegram e w)) = chats w" by simp
    then show ?thesis by (rule same)
  next
    fix feed q
    assume read: "readPublishedAt (GetFault e) (chats w) ?chat ?url = Inr q"
      and run: "RSS2Telegram e w = publish_new e ?tok ?chat ?url (Items feed) q w"
    have q: "q = p" using read read_fault_free[OF read] p by simp
    show ?thesis
    proof (cases "timestamps (filter (new_item p) (Items feed))")
      case Nil
      then have "chats (snd (RSS2Telegram e w)) = chats w"
        by (simp add: run q publish_new_chats)
      then show ?thesis by (rule same)
    next
      case (Cons t ts)
      then have pt: "p < t" by (rule new_head_after)
      have p0: "0 \<le> p" using p by (rule read_nonneg)
      obtain r col where wr: "writePublishedAt (UpdateFault e) (SetFault e) (chats w) ?chat ?url t
          = (r, col)"
        by (cases "writePublishedAt (UpdateFault e) (SetFault e) (chats w) ?chat ?url t")
      have c: "chats (snd (RSS2Telegram e w)) = col"
        using pt p0 by (simp add: run q publish_new_chats Cons wr)
      show ?thesis
      proof (cases r)
        case None
        with wr have "readPublishedAt None col ?chat ?url = Inr t"
          by (simp add: write_read_back)
        with p pt c show ?thesis by simp
      next
        case (Some err)
        with wr have "col = chats w" by (simp add: write_failed_unchanged)
        with c have "chats (snd (RSS2Telegram e w)) = chats w" by simp
        then show ?thesis by (rule same)
      qed
    qed
  qed
qed

subsection \<open>Reading the watermark\<close>

text \<open>
  C7. When the transport does not fail, \<^verbatim>\<open>readPublishedAt\<close> returns the zero time and no
  error when the document of the chat does not exist, when the field \<^verbatim>\<open>publishedAt\<close> or
  its entry for the feed URL is missing, and when the stored value is not a timestamp (or
  \<^verbatim>\<open>publishedAt\<close> is not a map); it returns the stored timestamp otherwise. It returns
  an error exactly when the transport fails, and the error is that failure.
\<close>

theorem read_tolerates_missing_watermark:
  "(col chatID = None \<longrightarrow> readPublishedAt None col chatID rssURL = Inr 0)
   \<and> (col chatID = Some d \<and> d ''publishedAt'' = None \<longrightarrow>
        readPublishedAt None col chatID rssURL = Inr 0)
   \<and> (col chatID = Some d \<and> d ''publishedAt'' = Some (MapV m) \<and> m rssURL = None \<longrightarrow>
        readPublishedAt None col chatID rssURL = Inr 0)
   \<and> (col chatID = Some d \<and> d ''publishedAt'' = Some (MapV m) \<and> m rssURL = Some v
        \<and> (\<forall>n. v \<noteq> TimestampV n) \<longrightarrow>
        readPublishedAt None col chatID rssURL = Inr 0)
   \<and> (col chatID = Some d \<and> d ''publishedAt'' = Some v' \<and> (\<forall>m'. v' \<noteq> MapV m') \<longrightarrow>
        readPublishedAt None col chatID rssURL = Inr 0)
   \<and> (col chatID = Some d \<and> d ''publishedAt'' = Some (MapV m) \<and> m rssURL = Some (TimestampV n)
        \<longrightarrow> readPublishedAt None col chatID rssURL = Inr (int n))
   \<and> (readPublishedAt fault col chatID rssURL = Inl err \<longleftrightarrow>
        (\<exists>msg. fault = Some msg \<and> err = StatusError Unavailable msg))"
proof -
  have e: "readPublishedAt fault col chatID rssURL = Inl err \<longleftrightarrow>
        (\<exists>msg. fault = Some msg \<and> err = StatusError Unavailable msg)"
    by (auto simp: readPublishedAt_def doc_Get_def split: option.splits sum.splits fs_value.splits)
  have 4: "readPublishedAt None col chatID rssURL = Inr 0"
    if "col chatID = Some d" "d ''publishedAt'' = Some (MapV m)" "m rssURL = Some v"
      "\<forall>n. v \<noteq> TimestampV n"
    using that by (cases v) (simp_all add: readPublishedAt_def doc_Get_def)
  have 5: "readPublishedAt None col chatID rssURL = Inr 0"
    if "col chatID = Some d" "d ''publishedAt'' = Some v'" "\<forall>m'. v' \<noteq> MapV m'"
    using that by (cases v') (simp_all add: readPublishedAt_def doc_Get_def)
  show ?thesis
    using e 4 5 by (simp add: readPublishedAt_def doc_Get_def)
qed

text \<open>
  A store with three chats: a missing document, a missing field, a missing entry, an entry
  that is a string and a field that is not a map all read as zero; the stored timestamp 20
  is read as 20; a transport failure is returned.
\<close>

theorem read_tolerates_missing_watermark_witness:
  "readPublishedAt None example_chats ''43'' ''https://blog.example/feed'' = Inr 0
   \<and> readPublishedAt None example_chats ''8'' ''https://blog.example/feed'' = Inr 0
   \<and> readPublishedAt None example_chats ''42'' ''https://new.example/feed'' = Inr 0
   \<and> readPublishedAt None example_chats ''42'' ''https://bad.example/feed'' = Inr 0
   \<and> readPublishedAt None example_chats ''7'' ''https://blog.example/feed'' = Inr 0
   \<and> readPublishedAt None example_chats ''42'' ''https://blog.example/feed'' = Inr 20
   \<and> readPublishedAt (Some ''connection reset'') example_chats ''42''
        ''https://blog.example/feed'' = Inl (StatusError Unavailable ''connection reset'')"
proof -
  let ?m = "Map.empty(''https://blog.example/feed'' \<mapsto> TimestampV 20,
                      ''https://other.example/feed'' \<mapsto> TimestampV 5,
                      ''https://bad.example/feed'' \<mapsto> StringV ''yesterday'')"
  let ?d = "Map.empty(''publishedAt'' \<mapsto> MapV ?m, ''title'' \<mapsto> StringV ''news channel'')"
  have 1: "readPublishedAt None example_chats ''43'' ''https://blog.example/feed'' = Inr 0"
    using read_tolerates_missing_watermark[where col = example_chats and chatID = "''43''"
        and rssURL = "''https://blog.example/feed''"]
    by (simp add: example_chats_def)
  have 2: "readPublishedAt None example_chats ''8'' ''https://blog.example/feed'' = Inr 0"
    using read_tolerates_missing_watermark[where col = example_chats and chatID = "''8''"
        and rssURL = "''https://blog.example/feed''"
        and d = "Map.empty(''title'' \<mapsto> StringV ''empty channel'')"]
    by (simp add: example_chats_def)
  have 3: "readPublishedAt None example_chats ''42'' ''https://new.example/feed'' = Inr 0"
    using read_tolerates_missing_watermark[where col = example_chats and chatID = "''42''"
        and rssURL = "''https://new.example/feed''" and d = ?d and m = ?m]
    by (simp add: example_chats_def)
  have 4: "readPublishedAt None example_chats ''42'' ''https://bad.example/feed'' = Inr 0"
    using read_tolerates_missing_watermark[where col = example_chats and chatID = "''42''"
        and rssURL = "''https://bad.example/feed''" and d = ?d and m = ?m
        and v = "StringV ''yesterday''"]
    by (simp add: example_chats_def)
  have 5: "readPublishedAt None example_chats ''7'' ''https://blog.example/feed'' = Inr 0"
    using read_tolerates_missing_watermark[where col = example_chats and chatID = "''7''"
        and rssURL = "''https://blog.example/feed''"
        and d = "Map.empty(''publishedAt'' \<mapsto> StringV ''none'')" and v' = "StringV ''none''"]
    by (simp add: example_chats_def)
  have 6: "readPublishedAt None example_chats ''42'' ''https://blog.example/feed'' = Inr 20"
    using read_tolerates_missing_watermark[where col = example_chats and chatID = "''42''"
        and rssURL = "''https://blog.example/feed''" and d = ?d and m = ?m and n = 20]
    by (simp add: example_chats_def)
  have 7: "readPublishedAt (Some ''connection reset'') example_chats ''42''
        ''https://blog.example/feed'' = Inl (StatusError Unavailable ''connection reset'')"
    using read_tolerates_missing_watermark[where col = example_chats and chatID = "''42''"
        and rssURL = "''https://blog.example/feed''" and fault = "Some ''connection reset''"
        and err = "StatusError Unavailable ''connection reset''"]
    by simp
  from 1 2 3 4 5 6 7 show ?thesis by simp
qed

subsection \<open>Writing the watermark\<close>

text \<open>
  C8. \<^verbatim>\<open>writePublishedAt\<close> leaves the watermark of every other feed URL under the same
  chat as it was (the watermark that is read, and the entry itself in the nested map),
  leaves the other chats and the other fields of the document of the chat as they were,
  creates the document with the single entry when it does not exist, succeeds
  on an existing document when the transport does not fail and the time can be stored, and
  after a success the watermark read for the feed URL is the written time.
\<close>

theorem write_upserts_only_its_entry:
  "(u \<noteq> rssURL \<longrightarrow>
      readPublishedAt None (snd (writePublishedAt ufault sfault col chatID rssURL t)) chatID u =
      readPublishedAt None col chatID u)
   \<and> (u \<noteq> rssURL \<and> col chatID = Some d \<and> d ''publishedAt'' = Some (MapV m)
        \<and> snd (writePublishedAt ufault sfault col chatID rssURL t) chatID = Some d' \<longrightarrow>
      (\<exists>m'. d' ''publishedAt'' = Some (MapV m') \<and> m' u = m u))
   \<and> (c \<noteq> chatID \<longrightarrow> snd (writePublishedAt ufault sfault col chatID rssURL t) c = col c)
   \<and> (col chatID = Some d \<and> field \<noteq> ''publishedAt''
        \<and> snd (writePublishedAt ufault sfault col chatID rssURL t) chatID = Some d' \<longrightarrow>
      d' field = d field)
   \<and> (col chatID = None \<and> ufault = None \<and> sfault = None \<and> toTimestamp t = Inr ts \<longrightarrow>
      writePublishedAt ufault sfault col chatID rssURL t =
        (None, col(chatID \<mapsto> Map.empty(''publishedAt'' \<mapsto>
                  MapV (Map.empty(rssURL \<mapsto> TimestampV ts))))))
   \<and> (col chatID = Some d \<and> ufault = None \<and> toTimestamp t = Inr ts \<longrightarrow>
      fst (writePublishedAt ufault sfault col chatID rssURL t) = None)
   \<and> (fst (writePublishedAt ufault sfault col chatID rssURL t) = None \<longrightarrow>
      readPublishedAt None (snd (writePublishedAt ufault sfault col chatID rssURL t))
        chatID rssURL = Inr t)"
proof -
  have 1: "u \<noteq> rssURL \<longrightarrow>
      readPublishedAt None (snd (writePublishedAt ufault sfault col chatID rssURL t)) chatID u =
      readPublishedAt None col chatID u"
    by (simp add: write_other_url)
  have 2: "c \<noteq> chatID \<longrightarrow> snd (writePublishedAt ufault sfault col chatID rssURL t) c = col c"
    by (simp add: write_other_chat)
  have 7: "u \<noteq> rssURL \<and> col chatID = Some d \<and> d ''publishedAt'' = Some (MapV m)
        \<and> snd (writePublishedAt ufault sfault col chatID rssURL t) chatID = Some d' \<longrightarrow>
      (\<exists>m'. d' ''publishedAt'' = Some (MapV m') \<and> m' u = m u)"
    by (auto simp: write_normal split: sum.splits option.splits)
  have 3: "col chatID = Some d \<and> field \<noteq> ''publishedAt''
        \<and> snd (writePublishedAt ufault sfault col chatID rssURL t) chatID = Some d' \<longrightarrow>
      d' field = d field"
    by (auto simp: write_normal split: sum.splits option.splits)
  have 4: "col chatID = None \<and> ufault = None \<and> sfault = None \<and> toTimestamp t = Inr ts \<longrightarrow>
      writePublishedAt ufault sfault col chatID rssURL t =
        (None, col(chatID \<mapsto> Map.empty(''publishedAt'' \<mapsto>
                  MapV (Map.empty(rssURL \<mapsto> TimestampV ts)))))"
    by (simp add: write_normal)
  have 5: "col chatID = Some d \<and> ufault = None \<and> toTimestamp t = Inr ts \<longrightarrow>
      fst (writePublishedAt ufault sfault col chatID rssURL t) = None"
    by (simp add: write_normal)
  have 6: "fst (writePublishedAt ufault sfault col chatID rssURL t) = None \<longrightarrow>
      readPublishedAt None (snd (writePublishedAt ufault sfault col chatID rssURL t))
        chatID rssURL = Inr t"
    using write_read_back[of ufault sfault col chatID rssURL t
        "snd (writePublishedAt ufault sfault col chatID rssURL t)"]
    by (metis prod.collapse)
  from 1 2 3 4 5 6 7 show ?thesis by blast
qed

text \<open>
  Writing 30 for one feed of a chat that also has the watermark 5 for another feed keeps
  the 5 and stores the 30; on the empty store the document is created.
\<close>

theorem write_upserts_only_its_entry_witness:
  "readPublishedAt None example_chats ''42'' ''https://other.example/feed'' = Inr 5
   \<and> readPublishedAt None
        (snd (writePublishedAt None None example_chats ''42'' ''https://blog.example/feed'' 30))
        ''42'' ''https://other.example/feed'' = Inr 5
   \<and> readPublishedAt None
        (snd (writePublishedAt None None example_chats ''42'' ''https://blog.example/feed'' 30))
        ''42'' ''https://blog.example/feed'' = Inr 30
   \<and> snd (writePublishedAt None None example_chats ''42'' ''https://blog.example/feed'' 30) ''7''
        = example_chats ''7''
   \<and> writePublishedAt None None example_chats ''42'' ''https://blog.example/feed'' 30 =
        (None, example_chats(''42'' \<mapsto>
           Map.empty(''publishedAt'' \<mapsto>
               MapV (Map.empty(''https://blog.example/feed'' \<mapsto> TimestampV 30,
                               ''https://other.example/feed'' \<mapsto> TimestampV 5,
                               ''https://bad.example/feed'' \<mapsto> StringV ''yesterday'')),
             ''title'' \<mapsto> StringV ''news channel'')))
   \<and> writePublishedAt None None Map.empty ''42'' ''https://blog.example/feed'' 30 =
        (None, Map.empty(''42'' \<mapsto> Map.empty(''publishedAt'' \<mapsto>
                  MapV (Map.empty(''https://blog.example/feed'' \<mapsto> TimestampV 30)))))"
proof -
  let ?m = "Map.empty(''https://blog.example/feed'' \<mapsto> TimestampV 20,
                      ''https://other.example/feed'' \<mapsto> TimestampV 5,
                      ''https://bad.example/feed'' \<mapsto> StringV ''yesterday'')"
  let ?d = "Map.empty(''publishedAt'' \<mapsto> MapV ?m, ''title'' \<mapsto> StringV ''news channel'')"
  have ts: "toTimestamp 30 = Inr 30"
    by (simp add: toTimestamp_def maxTimestamp_def)
  have before: "readPublishedAt None example_chats ''42'' ''https://other.example/feed'' = Inr 5"
    by (simp add: example_chats_def read_normal)
  note a = write_upserts_only_its_entry[where u = "''https://other.example/feed''"
      and rssURL = "''https://blog.example/feed''" and ufault = None and sfault = None
      and col = example_chats and chatID = "''42''" and t = 30 and c = "''7''" and d = ?d
      and ts = 30]
  have 1: "readPublishedAt None
        (snd (writePublishedAt None None example_chats ''42'' ''https://blog.example/feed'' 30))
        ''42'' ''https://other.example/feed'' = Inr 5"
    using a before by simp
  have 2: "snd (writePublishedAt None None example_chats ''42'' ''https://blog.example/feed'' 30)
        ''7'' = example_chats ''7''"
    using a by simp
  have "example_chats ''42'' = Some ?d"
    by (simp add: example_chats_def)
  with a ts have "fst (writePublishedAt None None example_chats ''42''
        ''https://blog.example/feed'' 30) = None"
    by blast
  with a have 3: "readPublishedAt None
        (snd (writePublishedAt None None example_chats ''42'' ''https://blog.example/feed'' 30))
        ''42'' ''https://blog.example/feed'' = Inr 30"
    by blast
  have 4: "writePublishedAt None None Map.empty ''42'' ''https://blog.example/feed'' 30 =
        (None, Map.empty(''42'' \<mapsto> Map.empty(''publishedAt'' \<mapsto>
                  MapV (Map.empty(''https://blog.example/feed'' \<mapsto> TimestampV 30)))))"
    using write_upserts_only_its_entry[where rssURL = "''https://blog.example/feed''"
      and ufault = None and sfault = None and col = Map.empty and chatID = "''42''" and t = 30
      and ts = 30] ts
    by simp
  have 5: "writePublishedAt None None example_chats ''42'' ''https://blog.example/feed'' 30 =
        (None, example_chats(''42'' \<mapsto>
           Map.empty(''publishedAt'' \<mapsto>
               MapV (Map.empty(''https://blog.example/feed'' \<mapsto> TimestampV 30,
                               ''https://other.example/feed'' \<mapsto> TimestampV 5,
                               ''https://bad.example/feed'' \<mapsto> StringV ''yesterday'')),
             ''title'' \<mapsto> StringV ''news channel'')))"
    by (simp add: program_defs example_chats_def fun_upd_twist)
  from before 1 2 3 4 5 show ?thesis by simp
qed

subsection \<open>Failed conversions\<close>

text \<open>
  C9. When the conversion of the content of an item fails, \<^verbatim>\<open>sendToTelegram\<close> still
  sends one request, whose text is the title between asterisks, an empty line and the
  unconverted content; the conversion error is printed to the log, and the error returned
  is decided by the answer of the endpoint alone (none when the endpoint answers 200).
\<close>

theorem conversion_failure_sends_raw_content:
  assumes "ConvertString e (Content item) = Inl cerr"
  shows "requests (snd (sendToTelegram e tok chat item w)) =
       requests w @
       [sendMessage tok chat (''*'' @ Title item @ ''*'' @ [CHR 0x0A, CHR 0x0A] @ Content item)]
     \<and> map_of (req_form (last (requests (snd (sendToTelegram e tok chat item w))))) ''text'' =
       Some [''*'' @ Title item @ ''*'' @ [CHR 0x0A, CHR 0x0A] @ Content item]
     \<and> logged (snd (sendToTelegram e tok chat item w)) = logged w @ [cerr]
     \<and> fst (sendToTelegram e tok chat item w) =
       (case PostForm e (requests w)
               (sendMessage tok chat
                  (''*'' @ Title item @ ''*'' @ [CHR 0x0A, CHR 0x0A] @ Content item)) of
          Inl err \<Rightarrow> Some err
        | Inr resp \<Rightarrow>
            (case Body resp of
               Inl err \<Rightarrow> Some err
             | Inr data \<Rightarrow>
                 if StatusCode resp = 200 then None
                 else Some (BadStatus (StatusCode resp) data)))"
  using assms
  by (simp add: sendToTelegram_def Let_def log_Println_def message_text_def sendMessage_def
      split: sum.splits)

text \<open>A converter that fails and an endpoint that answers 200.\<close>

theorem conversion_failure_sends_raw_content_witness:
  "ConvertString (example_env [] failing_converter endpoint_ok)
       (Content (example_item ''Hello'' (Some 10))) = Inl (ErrorString ''unexpected end of input'')
   \<and> fst (sendToTelegram (example_env [] failing_converter endpoint_ok) ''token'' ''42''
           (example_item ''Hello'' (Some 10)) empty_world) = None
   \<and> map_of (req_form (last (requests
         (snd (sendToTelegram (example_env [] failing_converter endpoint_ok) ''token'' ''42''
                 (example_item ''Hello'' (Some 10)) empty_world))))) ''text'' =
       Some [''*Hello*'' @ [CHR 0x0A, CHR 0x0A] @ ''<b>news</b>'']
   \<and> logged (snd (sendToTelegram (example_env [] failing_converter endpoint_ok) ''token'' ''42''
                 (example_item ''Hello'' (Some 10)) empty_world)) =
       [ErrorString ''unexpected end of input'']"
proof -
  let ?e = "example_env [] failing_converter endpoint_ok"
  have c: "ConvertString ?e (Content (example_item ''Hello'' (Some 10))) =
      Inl (ErrorString ''unexpected end of input'')"
    by (simp add: example_env_def failing_converter_def)
  from conversion_failure_sends_raw_content[OF c, of "''token''" "''42''" empty_world] c
  show ?thesis
    by (simp add: example_env_def example_item_def endpoint_ok_def empty_world_def
        sendMessage_def)
qed

subsection \<open>The watermark that is written\<close>



end
